theory Spec2Isabelle
  imports Complex_Main "HOL-Library.Log_Nat"
begin

section \<open>Python values used by the two components\<close>

subsection \<open>Floats\<close>

text \<open>
  A Python float is an IEEE 754 binary64 number. It is modelled by the rational it
  denotes, and every arithmetic operation rounds its exact result back to binary64
  with \<open>fl\<close> (round to nearest, ties to even, 53 significant bits, gradual underflow
  below \<open>2^-1022\<close>). Infinities, NaN and overflow above the largest double are outside
  the model: the quantities of the controller (bit rates, percentages, fractions) are
  far from them.
\<close>

definition pow2 :: "int \<Rightarrow> rat" where
  "pow2 e = (if 0 \<le> e then 2 ^ nat e else 1 / 2 ^ nat (- e))"

definition round_half_even :: "rat \<Rightarrow> int" where
  "round_half_even x =
     (let f = \<lfloor>x\<rfloor>; d = x - of_int f
      in if d < 1 / 2 then f else if 1 / 2 < d then f + 1 else if even f then f else f + 1)"

text \<open>For \<open>0 < x\<close>, \<open>binade x\<close> is the exponent \<open>e\<close> with \<open>2^e \<le> x < 2^(e+1)\<close>.\<close>

definition binade :: "rat \<Rightarrow> int" where
  "binade x = (case quotient_of x of (p, q) \<Rightarrow>
     (let e0 = bitlen p - bitlen q in if pow2 e0 \<le> x then e0 else e0 - 1))"

definition fl :: "rat \<Rightarrow> rat" where
  "fl x = (if x = 0 then 0 else
     (let a = \<bar>x\<bar>; u = pow2 (max (binade a) (- 1022) - 52)
      in sgn x * of_int (round_half_even (a / u)) * u))"

text \<open>\<open>float(i)\<close> for an int, and the float operations the controller uses.\<close>

definition float_of_int :: "int \<Rightarrow> rat" where
  "float_of_int i = fl (of_int i)"

definition fsub :: "rat \<Rightarrow> rat \<Rightarrow> rat" where
  "fsub x y = fl (x - y)"

definition fadd :: "rat \<Rightarrow> rat \<Rightarrow> rat" where
  "fadd x y = fl (x + y)"

definition fmul :: "rat \<Rightarrow> rat \<Rightarrow> rat" where
  "fmul x y = fl (x * y)"

text \<open>
  \<open>a / b\<close> on two Python ints is the correctly rounded quotient of the exact integers
  (it is not \<open>float(a) / float(b)\<close>); the caller excludes \<open>b = 0\<close>.
\<close>

definition int_truediv :: "int \<Rightarrow> int \<Rightarrow> rat" where
  "int_truediv a b = fl (of_int a / of_int b)"

text \<open>\<open>int(x)\<close> on a float truncates towards zero.\<close>

definition py_int :: "rat \<Rightarrow> int" where
  "py_int x = (if 0 \<le> x then \<lfloor>x\<rfloor> else \<lceil>x\<rceil>)"

subsection \<open>Strings\<close>

text \<open>
  A Python \<open>str\<close> is a sequence of code points; the model has the code points below
  256 (one \<open>char\<close> each). \<open>lower\<close> is \<open>str.lower\<close> on that range: the letters A to Z and
  the Latin-1 capitals U+00C0 to U+00DE (without the multiplication sign U+00D7) move up
  by 32, everything else stays.
\<close>

definition lower_char :: "char \<Rightarrow> char" where
  "lower_char c =
     (let n = (of_char c :: nat)
      in if (65 \<le> n \<and> n \<le> 90) \<or> (192 \<le> n \<and> n \<le> 222 \<and> n \<noteq> 215)
         then char_of (n + 32) else c)"

definition lower :: "string \<Rightarrow> string" where
  "lower s = map lower_char s"

fun starts_with :: "string \<Rightarrow> string \<Rightarrow> bool" where
  "starts_with [] s = True"
| "starts_with (p # ps) [] = False"
| "starts_with (p # ps) (c # cs) = (p = c \<and> starts_with ps cs)"

text \<open>\<open>py_in sub s\<close> is Python's \<open>sub in s\<close> on strings: \<open>sub\<close> occurs in \<open>s\<close> as a block.\<close>

fun py_in :: "string \<Rightarrow> string \<Rightarrow> bool" where
  "py_in sub [] = (sub = [])"
| "py_in sub (c # cs) = (starts_with sub (c # cs) \<or> py_in sub cs)"

text \<open>\<open>str.strip()\<close>: the white space of Python among the code points below 256.\<close>

definition is_space :: "char \<Rightarrow> bool" where
  "is_space c =
     (let n = (of_char c :: nat)
      in (9 \<le> n \<and> n \<le> 13) \<or> (28 \<le> n \<and> n \<le> 32) \<or> n = 133 \<or> n = 160)"

definition strip :: "string \<Rightarrow> string" where
  "strip s = rev (dropWhile is_space (rev (dropWhile is_space s)))"

text \<open>\<open>str(i)\<close> for an int, as the f-strings of the argument builder print it.\<close>

definition digit_char :: "int \<Rightarrow> char" where
  "digit_char d = char_of (48 + d)"

function str_digits :: "int \<Rightarrow> string" where
  "str_digits n =
     (if n < 10 then [digit_char n] else str_digits (n div 10) @ [digit_char (n mod 10)])"
  by pat_completeness auto
termination
  by (relation "measure nat") auto

declare str_digits.simps [simp del]

definition str_int :: "int \<Rightarrow> string" where
  "str_int i = (if i < 0 then CHR ''-'' # str_digits (- i) else str_digits i)"

text \<open>\<open>sep.join(xs)\<close>.\<close>

fun join :: "string \<Rightarrow> string list \<Rightarrow> string" where
  "join sep [] = []"
| "join sep [x] = x"
| "join sep (x # y # ys) = x @ sep @ join sep (y # ys)"

datatype py_error = RuntimeError string | TypeError | KeyError

section \<open>rist\_manager.py: the pipeline session manager\<close>

datatype bonding_method = BROADCAST | ROUND_ROBIN

datatype audio_codec = AAC | OPUS

datatype video_codec = H264 | H265

fun bonding_value :: "bonding_method \<Rightarrow> string" where
  "bonding_value BROADCAST = ''broadcast''"
| "bonding_value ROUND_ROBIN = ''round-robin''"



record audio_config =
  ac_codec :: audio_codec
  ac_bitrate :: int
  sample_rate :: int
  channels :: int

record video_config =
  vc_codec :: video_codec
  width :: int
  height :: int
  framerate :: int
  vc_bitrate :: int
  keyframe_interval :: int

record rist_link =
  address :: string
  port :: int
  enabled :: bool
  weight :: int

record rist_config =
  links :: "rist_link list"
  bonding :: bonding_method
  sender_buffer :: int
  receiver_buffer :: int
  reorder_buffer :: int
  rtt_min :: int
  rtt_max :: int
  fec_rows :: int
  fec_columns :: int
  max_retries :: int

text \<open>
  The \<open>subprocess.Popen\<close> handle: the process identifier and whether the external
  process has exited (\<open>poll()\<close> is not \<open>None\<close>). The operating system sets \<open>exited\<close>.
\<close>

record process =
  pid :: int
  exited :: bool

record rist_manager =
  gst_launch :: string
  rist_cfg :: "rist_config option"
  video_cfg :: "video_config option"
  audio_cfg :: "audio_config option"
  process :: "process option"
  is_streaming :: bool
  last_error :: "string option"

text \<open>\<open>RISTManager.__init__\<close>, given the joined path of the launcher binary.\<close>

definition init_manager :: "string \<Rightarrow> rist_manager" where
  "init_manager launcher =
     \<lparr>gst_launch = launcher, rist_cfg = None, video_cfg = None, audio_cfg = None,
      process = None, is_streaming = False, last_error = None\<rparr>"

subsection \<open>The diagnostic-line classifier\<close>

definition msg_disk_full :: string where
  "msg_disk_full = ''Speicherplatz voll - Stream kann nicht aufgezeichnet werden''"

definition msg_connection :: string where
  "msg_connection = ''RIST-Verbindung fehlgeschlagen - Server nicht erreichbar''"

definition msg_data_flow :: string where
  "msg_data_flow = ''Pipeline-Fehler - Video/Audio-Quelle pr'' @ [char_of (252::nat)] @ ''fen''"

definition msg_stream_ended :: string where
  "msg_stream_ended = ''RIST Stream unerwartet beendet''"

definition msg_not_negotiated :: string where
  "msg_not_negotiated = ''Video/Audio-Format nicht unterst'' @ [char_of (252::nat)] @ ''tzt''"

definition msg_plugin :: string where
  "msg_plugin = ''GStreamer-Plugin fehlt - Installation pr'' @ [char_of (252::nat)] @ ''fen''"

definition parse_gst_error :: "string \<Rightarrow> string option" where
  "parse_gst_error line =
     (let line_lower = lower line
      in if py_in ''no space left on device'' line_lower then Some msg_disk_full
         else if py_in ''could not open resource'' line_lower
                 \<or> py_in ''connection refused'' line_lower then Some msg_connection
         else if py_in ''internal data flow error'' line_lower then Some msg_data_flow
         else if py_in ''streaming stopped'' line_lower \<or> py_in ''eos'' line_lower
           then Some msg_stream_ended
         else if py_in ''not negotiated'' line_lower then Some msg_not_negotiated
         else if py_in ''no such element'' line_lower
                 \<or> py_in ''failed to create element'' line_lower then Some msg_plugin
         else if py_in ''error'' line_lower then Some (''RIST Error: '' @ take 100 line)
         else None)"

subsection \<open>The error monitor\<close>

text \<open>
  \<open>_monitor_stderr\<close> reads the diagnostic stream line by line until the stream closes,
  the process is seen to have exited, or a stop is requested. Its argument is the list
  of decoded lines it reads before that. It writes nothing but \<open>last_error\<close> (the error
  callback belongs to the caller, and what it raises is caught).
\<close>

fun monitor_stderr :: "string list \<Rightarrow> rist_manager \<Rightarrow> rist_manager" where
  "monitor_stderr [] m = m"
| "monitor_stderr (raw # rest) m =
     (let line_str = strip raw
      in if line_str = [] then monitor_stderr rest m
         else (case parse_gst_error line_str of
                 None \<Rightarrow> monitor_stderr rest m
               | Some error_msg \<Rightarrow> monitor_stderr rest (m\<lparr>last_error := Some error_msg\<rparr>)))"

text \<open>The external process exits on its own: only the handle's \<open>poll()\<close> changes.\<close>

definition process_exits :: "rist_manager \<Rightarrow> rist_manager" where
  "process_exits m = m\<lparr>process := map_option (\<lambda>p. p\<lparr>exited := True\<rparr>) (process m)\<rparr>"

subsection \<open>configure\<close>

definition configure ::
  "rist_config \<Rightarrow> video_config option \<Rightarrow> audio_config option \<Rightarrow> rist_manager
     \<Rightarrow> py_error + rist_manager" where
  "configure rc vc ac m =
     (if is_streaming m then Inl (RuntimeError ''Cannot configure while streaming. Stop first.'')
      else Inr (m\<lparr>rist_cfg := Some rc, video_cfg := vc, audio_cfg := ac\<rparr>))"

subsection \<open>The argument builder\<close>

text \<open>\<open>has_plugin\<close> is the answer of \<open>gst-inspect-1.0\<close>, a fact of the installation.\<close>

definition build_video_pipeline :: "(string \<Rightarrow> bool) \<Rightarrow> video_config \<Rightarrow> string list" where
  "build_video_pipeline has_plugin vc =
     [''videotestsrc'', ''is-live=true'', ''!'', ''video/x-raw,format=I420'',
      ''width='' @ str_int (width vc) @ '',height='' @ str_int (height vc)
        @ '',framerate='' @ str_int (framerate vc) @ ''/1'',
      ''!'', ''videoconvert'', ''!'']
     @ (case vc_codec vc of
          H264 \<Rightarrow>
            [if has_plugin ''x264enc'' then ''x264enc'' else ''avenc_h264'',
             ''bitrate='' @ str_int (vc_bitrate vc div 1000), ''tune=zerolatency'',
             ''key-int-max='' @ str_int (keyframe_interval vc), ''!'', ''h264parse'', ''!'',
             ''rtph264pay'']
        | H265 \<Rightarrow>
            [if has_plugin ''x265enc'' then ''x265enc'' else ''avenc_h265'',
             ''bitrate='' @ str_int (vc_bitrate vc div 1000), ''tune=zerolatency'',
             ''key-int-max='' @ str_int (keyframe_interval vc), ''!'', ''h265parse'', ''!'',
             ''rtph265pay''])"

definition build_audio_pipeline :: "audio_config \<Rightarrow> string list" where
  "build_audio_pipeline ac =
     [''audiotestsrc'', ''is-live=true'', ''!'', ''audioconvert'', ''!'',
      ''audio/x-raw,rate='' @ str_int (sample_rate ac) @ '',channels='' @ str_int (channels ac),
      ''!'']
     @ (case ac_codec ac of
          AAC \<Rightarrow> [''avenc_aac'', ''bitrate='' @ str_int (ac_bitrate ac), ''!'', ''aacparse'', ''!'',
                  ''rtpmp4apay'']
        | OPUS \<Rightarrow> [''opusenc'', ''bitrate='' @ str_int (ac_bitrate ac), ''!'', ''opusparse'', ''!'',
                   ''rtpopuspay''])"

definition link_endpoint :: "rist_link \<Rightarrow> string" where
  "link_endpoint l = address l @ '':'' @ str_int (port l)"

definition build_rist_pipeline :: "rist_config \<Rightarrow> string list" where
  "build_rist_pipeline rc =
     (case links rc of
        [link] \<Rightarrow>
          [''ristsink'', ''address='' @ address link, ''port='' @ str_int (port link),
           ''sender-buffer='' @ str_int (sender_buffer rc), ''stats-update-interval=1000'']
      | _ \<Rightarrow>
          (let links_str = join '','' (map link_endpoint (filter enabled (links rc)))
           in [''ristsink'', ''address='' @ links_str,
               ''bonding-method='' @ bonding_value (bonding rc),
               ''sender-buffer='' @ str_int (sender_buffer rc), ''stats-update-interval=1000'']))"

definition build_pipeline_command ::
  "(string \<Rightarrow> bool) \<Rightarrow> rist_manager \<Rightarrow> py_error + string list" where
  "build_pipeline_command has_plugin m =
     (case rist_cfg m of
        None \<Rightarrow> Inl (RuntimeError ''RIST not configured'')
      | Some rc \<Rightarrow>
          Inr ([gst_launch m]
               @ (case video_cfg m of None \<Rightarrow> [] | Some vc \<Rightarrow> build_video_pipeline has_plugin vc)
               @ (case audio_cfg m of
                    None \<Rightarrow> []
                  | Some ac \<Rightarrow>
                      (if video_cfg m \<noteq> None then [''!''] else []) @ build_audio_pipeline ac)
               @ [''!''] @ build_rist_pipeline rc))"

subsection \<open>start, stop, status\<close>

text \<open>
  What the launch of the external process does is the environment's choice: \<open>Popen\<close>
  raises, or the process is dead after the grace second (and reading its output either
  works or raises), or it is alive.
\<close>

datatype launch =
    LaunchRaises string
  | DiedEarly int
  | DiedEarlyUnreadable int string
  | Alive int

definition start ::
  "(string \<Rightarrow> bool) \<Rightarrow> launch \<Rightarrow> rist_manager \<Rightarrow> py_error + (bool \<times> rist_manager)" where
  "start has_plugin env m =
     (if is_streaming m then Inr (False, m)
      else if rist_cfg m = None
        then Inl (RuntimeError ''RIST not configured. Call configure() first.'')
      else (case build_pipeline_command has_plugin m of
              Inl e \<Rightarrow>
                Inr (False, m\<lparr>last_error :=
                       Some (case e of RuntimeError msg \<Rightarrow> msg | _ \<Rightarrow> [])\<rparr>)
            | Inr cmd \<Rightarrow>
                (case env of
                   LaunchRaises msg \<Rightarrow> Inr (False, m\<lparr>last_error := Some msg\<rparr>)
                 | DiedEarly p \<Rightarrow>
                     Inr (False, m\<lparr>process := Some \<lparr>pid = p, exited = True\<rparr>,
                                    last_error := Some ''Pipeline konnte nicht gestartet werden''\<rparr>)
                 | DiedEarlyUnreadable p msg \<Rightarrow>
                     Inr (False, m\<lparr>process := Some \<lparr>pid = p, exited = True\<rparr>,
                                    last_error := Some msg\<rparr>)
                 | Alive p \<Rightarrow>
                     Inr (True, m\<lparr>process := Some \<lparr>pid = p, exited = False\<rparr>,
                                   is_streaming := True\<rparr>))))"

text \<open>
  The shutdown of the process group: a signal call raises (for instance because the
  process is gone), or the process exits on the interrupt, or it is killed after the
  timeout.
\<close>

datatype shutdown = ShutdownRaises | ExitsOnInterrupt | KilledAfterTimeout

definition stop :: "shutdown \<Rightarrow> rist_manager \<Rightarrow> bool \<times> rist_manager" where
  "stop env m =
     (if \<not> is_streaming m \<or> process m = None then (False, m)
      else (case env of
              ShutdownRaises \<Rightarrow> (False, m)
            | _ \<Rightarrow> (True, m\<lparr>is_streaming := False, process := None\<rparr>)))"

record video_status =
  vs_codec :: string
  vs_resolution :: string
  vs_framerate :: int
  vs_bitrate :: int

record audio_status =
  as_codec :: string
  as_sample_rate :: int
  as_bitrate :: int

record status =
  st_is_streaming :: bool
  st_configured :: bool
  st_links :: "nat option"
  st_bonding_method :: "string option"
  st_video :: "video_status option"
  st_audio :: "audio_status option"
  st_pid :: "int option"
  st_running :: "bool option"
  st_error :: "string option"


definition update_bitrate ::
  "(string \<Rightarrow> bool) \<Rightarrow> shutdown \<Rightarrow> launch \<Rightarrow> int \<Rightarrow> rist_manager
     \<Rightarrow> py_error + (bool \<times> rist_manager)" where
  "update_bitrate has_plugin env_stop env_start new_bitrate m =
     (case video_cfg m of
        None \<Rightarrow> Inr (False, m)
      | Some vc \<Rightarrow>
          (let m1 = m\<lparr>video_cfg := Some (vc\<lparr>vc_bitrate := new_bitrate\<rparr>)\<rparr>
           in if is_streaming m1 then start has_plugin env_start (snd (stop env_stop m1))
              else Inr (True, m1)))"

text \<open>
  The states the session manager can be in: those its operations and its environment
  produce from a fresh manager.
\<close>

inductive reachable :: "rist_manager \<Rightarrow> bool" where
  fresh: "reachable (init_manager launcher)"
| configured: "reachable m \<Longrightarrow> configure rc vc ac m = Inr m' \<Longrightarrow> reachable m'"
| started: "reachable m \<Longrightarrow> start has_plugin env m = Inr (ok, m') \<Longrightarrow> reachable m'"
| stopped: "reachable m \<Longrightarrow> stop env m = (ok, m') \<Longrightarrow> reachable m'"
| monitored: "reachable m \<Longrightarrow> reachable (monitor_stderr ls m)"
| exited: "reachable m \<Longrightarrow> reachable (process_exits m)"
| updated:
    "reachable m \<Longrightarrow> update_bitrate has_plugin env_stop env_start b m = Inr (ok, m')
       \<Longrightarrow> reachable m'"

section \<open>adaptive\_controller.py: the adaptive controller\<close>

record adaptive_config =
  ctl_enabled :: bool
  adaptive_bitrate_enabled :: bool
  adaptive_links_enabled :: bool
  packet_loss_threshold_high :: rat
  packet_loss_threshold_low :: rat
  rtt_threshold_high :: int
  bitrate_step_down :: rat
  bitrate_step_up :: rat
  min_video_bitrate :: int
  max_video_bitrate :: int
  link_disable_signal_threshold :: int
  link_enable_signal_threshold :: int
  stats_check_interval :: int
  config_save_interval :: int
  stable_periods_before_increase :: int
  immediate_decrease :: bool

text \<open>The defaults of the \<open>AdaptiveConfig\<close> dataclass; \<open>0.15\<close> is the double nearest to 15/100.\<close>

definition default_config :: adaptive_config where
  "default_config =
     \<lparr>ctl_enabled = True, adaptive_bitrate_enabled = True, adaptive_links_enabled = True,
      packet_loss_threshold_high = fl 5, packet_loss_threshold_low = fl 1,
      rtt_threshold_high = 200,
      bitrate_step_down = fl (15 / 100), bitrate_step_up = fl (10 / 100),
      min_video_bitrate = 500000, max_video_bitrate = 10000000,
      link_disable_signal_threshold = 20, link_enable_signal_threshold = 40,
      stats_check_interval = 2, config_save_interval = 10,
      stable_periods_before_increase = 5, immediate_decrease = True\<rparr>"

record adaptive_state =
  current_packet_loss :: rat
  current_rtt :: int
  current_retransmissions :: int
  current_video_bitrate :: int
  current_audio_bitrate :: int
  active_links :: "string list"
  disabled_links :: "string list"
  stable_periods :: int
  last_adjustment_time :: rat
  total_bitrate_increases :: int
  total_bitrate_decreases :: int
  total_link_disables :: int
  total_link_enables :: int

definition initial_state :: adaptive_state where
  "initial_state =
     \<lparr>current_packet_loss = 0, current_rtt = 0, current_retransmissions = 0,
      current_video_bitrate = 0, current_audio_bitrate = 0,
      active_links = [], disabled_links = [],
      stable_periods = 0, last_adjustment_time = 0,
      total_bitrate_increases = 0, total_bitrate_decreases = 0,
      total_link_disables = 0, total_link_enables = 0\<rparr>"

text \<open>
  The controller object: its configuration, its \<open>AdaptiveState\<close>, whether a link-quality
  monitor was given, and the bookkeeping of the persistence step. The session manager it
  refers to is passed alongside.
\<close>

record controller =
  config :: adaptive_config
  state :: adaptive_state
  has_monitor :: bool
  config_dirty :: bool
  last_config_save :: rat

definition init_controller :: "adaptive_config \<Rightarrow> bool \<Rightarrow> controller" where
  "init_controller c monitor =
     \<lparr>config = c, state = initial_state, has_monitor = monitor,
      config_dirty = False, last_config_save = 0\<rparr>"

text \<open>
  One entry of the link-quality monitor's answer, and the answer itself: the items of
  the dictionary from modem identifier to status, in the dictionary's order.
\<close>

record modem_status =
  connected :: bool
  signal_strength :: int

type_synonym readings = "(string \<times> modem_status) list"

subsection \<open>Sampling\<close>

text \<open>
  \<open>stats\<close> is what \<open>get_stats()\<close> returned, as the items of the dictionary; the empty list
  stands for every falsy answer (\<open>None\<close>, \<open>{}\<close>).
\<close>

definition stats_get :: "(string \<times> int) list \<Rightarrow> string \<Rightarrow> int \<Rightarrow> int" where
  "stats_get stats k d = (case map_of stats k of None \<Rightarrow> d | Some v \<Rightarrow> v)"

definition update_rist_stats ::
  "(string \<times> int) list \<Rightarrow> rist_manager \<Rightarrow> adaptive_state \<Rightarrow> adaptive_state" where
  "update_rist_stats stats m s =
     (if stats = [] then s
      else
        (let sent_original = stats_get stats ''sent_original_packets'' 0;
             sent_retransmitted = stats_get stats ''sent_retransmitted_packets'' 0;
             s1 = s\<lparr>current_packet_loss :=
                      (if sent_original > 0
                       then fmul (int_truediv sent_retransmitted sent_original) (float_of_int 100)
                       else 0)\<rparr>;
             s2 = s1\<lparr>current_retransmissions := sent_retransmitted\<rparr>;
             s3 = (case video_cfg m of
                     None \<Rightarrow> s2 | Some vc \<Rightarrow> s2\<lparr>current_video_bitrate := vc_bitrate vc\<rparr>)
         in (case audio_cfg m of
               None \<Rightarrow> s3 | Some ac \<Rightarrow> s3\<lparr>current_audio_bitrate := ac_bitrate ac\<rparr>)))"

definition update_modem_stats ::
  "adaptive_config \<Rightarrow> readings \<Rightarrow> adaptive_state \<Rightarrow> adaptive_state" where
  "update_modem_stats c modem_status s =
     (let is_active = (\<lambda>st. connected st \<and> signal_strength st \<ge> link_enable_signal_threshold c);
          active = map fst (filter (\<lambda>(modem_id, st). is_active st) modem_status);
          disabled = map fst (filter (\<lambda>(modem_id, st). \<not> is_active st
                        \<and> signal_strength st < link_disable_signal_threshold c) modem_status);
          s1 = (if set active \<noteq> set (active_links s) then s\<lparr>active_links := active\<rparr> else s)
      in if set disabled \<noteq> set (disabled_links s1)
         then s1\<lparr>disabled_links := disabled\<rparr> else s1)"

subsection \<open>Pushing a change to the session manager\<close>

text \<open>
  What the session manager answers to a pushed reconfiguration: it accepts, it rejects
  (returns false), or the call raises.
\<close>

datatype push = Accepted | Rejected | PushRaises

text \<open>
  Modelled from the spec: \<open>hot_reload\<close>, the operation of the session manager through which
  the controller pushes a rebuilt configuration object (spec 4.2, step 5: "rebuild the
  affected config object, push it to the Session Manager"), is called by
  adaptive\_controller.py and defined nowhere in rist\_manager.py. An accepted push
  stores the pushed object; a rejected or raising push leaves the manager as it is.
\<close>

definition hot_reload_video ::
  "push \<Rightarrow> video_config \<Rightarrow> rist_manager \<Rightarrow> (py_error + bool) \<times> rist_manager" where
  "hot_reload_video answer vc m =
     (case answer of
        Accepted \<Rightarrow> (Inr True, m\<lparr>video_cfg := Some vc\<rparr>)
      | Rejected \<Rightarrow> (Inr False, m)
      | PushRaises \<Rightarrow> (Inl (RuntimeError []), m))"

text \<open>Modelled from the spec: the same operation for a rebuilt transport configuration.\<close>

definition hot_reload_rist ::
  "push \<Rightarrow> rist_config \<Rightarrow> rist_manager \<Rightarrow> (py_error + bool) \<times> rist_manager" where
  "hot_reload_rist answer rc m =
     (case answer of
        Accepted \<Rightarrow> (Inr True, m\<lparr>rist_cfg := Some rc\<rparr>)
      | Rejected \<Rightarrow> (Inr False, m)
      | PushRaises \<Rightarrow> (Inl (RuntimeError []), m))"

text \<open>
  \<open>_apply_video_bitrate\<close>: the new configuration object is the manager's with the bit rate
  replaced. Reading the manager's configuration raises when there is none; that and a
  raising push are caught and logged.
\<close>

definition apply_video_bitrate ::
  "push \<Rightarrow> int \<Rightarrow> controller \<times> rist_manager \<Rightarrow> controller \<times> rist_manager" where
  "apply_video_bitrate answer new_bitrate cm =
     (case cm of (ctl, m) \<Rightarrow>
        (case video_cfg m of
           None \<Rightarrow> (ctl, m)
         | Some vc \<Rightarrow>
             (case hot_reload_video answer (vc\<lparr>vc_bitrate := new_bitrate\<rparr>) m of
                (Inr True, m') \<Rightarrow>
                  (ctl\<lparr>state := (state ctl)\<lparr>current_video_bitrate := new_bitrate\<rparr>,
                       config_dirty := True\<rparr>, m')
              | (Inr False, m') \<Rightarrow> (ctl, m')
              | (Inl e, m') \<Rightarrow> (ctl, m'))))"

definition apply_link_config ::
  "push \<Rightarrow> rist_link list \<Rightarrow> controller \<times> rist_manager \<Rightarrow> controller \<times> rist_manager" where
  "apply_link_config answer new_links cm =
     (case cm of (ctl, m) \<Rightarrow>
        (case rist_cfg m of
           None \<Rightarrow> (ctl, m)
         | Some rc \<Rightarrow>
             (case hot_reload_rist answer (rc\<lparr>links := new_links\<rparr>) m of
                (Inr True, m') \<Rightarrow> (ctl\<lparr>config_dirty := True\<rparr>, m')
              | (Inr False, m') \<Rightarrow> (ctl, m')
              | (Inl e, m') \<Rightarrow> (ctl, m'))))"

subsection \<open>The bitrate policy\<close>

text \<open>
  \<open>_adaptive_bitrate_control\<close>. \<open>answer\<close> is the session manager's answer to the push, if
  one is made, and \<open>now\<close> the reading of the clock. The third component of the result is
  the bit rate handed to \<open>_apply_video_bitrate\<close> in this tick, if any.
\<close>

definition should_decrease :: "adaptive_config \<Rightarrow> adaptive_state \<Rightarrow> bool" where
  "should_decrease c s =
     (current_packet_loss s > packet_loss_threshold_high c
      \<or> (current_rtt s > rtt_threshold_high c \<and> current_rtt s > 0))"

definition can_increase :: "adaptive_config \<Rightarrow> adaptive_state \<Rightarrow> bool" where
  "can_increase c s =
     (current_packet_loss s < packet_loss_threshold_low c
      \<and> current_video_bitrate s < max_video_bitrate c)"

definition decreased_bitrate :: "adaptive_config \<Rightarrow> int \<Rightarrow> int" where
  "decreased_bitrate c current_bitrate =
     max (py_int (fmul (float_of_int current_bitrate) (fsub 1 (bitrate_step_down c))))
         (min_video_bitrate c)"

definition increased_bitrate :: "adaptive_config \<Rightarrow> int \<Rightarrow> int" where
  "increased_bitrate c current_bitrate =
     min (py_int (fmul (float_of_int current_bitrate) (fadd 1 (bitrate_step_up c))))
         (max_video_bitrate c)"

definition adaptive_bitrate_control ::
  "push \<Rightarrow> rat \<Rightarrow> controller \<times> rist_manager \<Rightarrow> controller \<times> rist_manager \<times> int option" where
  "adaptive_bitrate_control answer now cm =
     (case cm of (ctl, m) \<Rightarrow>
        (let c = config ctl; s = state ctl; current_bitrate = current_video_bitrate s
         in if current_bitrate = 0 then (ctl, m, None)
            else if should_decrease c s \<and> immediate_decrease c then
              (let new_bitrate = decreased_bitrate c current_bitrate
               in if new_bitrate < current_bitrate then
                    (case apply_video_bitrate answer new_bitrate (ctl, m) of (ctl1, m1) \<Rightarrow>
                       (ctl1\<lparr>state := (state ctl1)
                               \<lparr>stable_periods := 0,
                                total_bitrate_decreases := total_bitrate_decreases (state ctl1) + 1,
                                last_adjustment_time := now\<rparr>\<rparr>,
                        m1, Some new_bitrate))
                  else (ctl, m, None))
            else if can_increase c s then
              (let ctl1 = ctl\<lparr>state := s\<lparr>stable_periods := stable_periods s + 1\<rparr>\<rparr>
               in if stable_periods (state ctl1) \<ge> stable_periods_before_increase c then
                    (let new_bitrate = increased_bitrate c current_bitrate
                     in if new_bitrate > current_bitrate then
                          (case apply_video_bitrate answer new_bitrate (ctl1, m) of (ctl2, m2) \<Rightarrow>
                             (ctl2\<lparr>state := (state ctl2)
                                     \<lparr>stable_periods := 0,
                                      total_bitrate_increases :=
                                        total_bitrate_increases (state ctl2) + 1,
                                      last_adjustment_time := now\<rparr>\<rparr>,
                              m2, Some new_bitrate))
                        else (ctl1, m, None))
                  else (ctl1, m, None))
            else if current_packet_loss s \<ge> packet_loss_threshold_low c
              then (ctl\<lparr>state := s\<lparr>stable_periods := 0\<rparr>\<rparr>, m, None)
            else (ctl, m, None)))"

subsection \<open>The link policy\<close>

text \<open>
  The inner loop of \<open>_adaptive_link_control\<close>: every modem's reading is checked against the
  link at hand (the source maps no modem to a link). The accumulator is
  \<open>(should_be_enabled, needs_update, state)\<close>.
\<close>

fun check_modems ::
  "adaptive_config \<Rightarrow> rist_link \<Rightarrow> readings \<Rightarrow> bool \<times> bool \<times> adaptive_state
     \<Rightarrow> bool \<times> bool \<times> adaptive_state" where
  "check_modems c link [] acc = acc"
| "check_modems c link ((modem_id, status) # rest) (should_be_enabled, needs_update, s) =
     (if signal_strength status < link_disable_signal_threshold c then
        (if enabled link
         then check_modems c link rest
                (False, True, s\<lparr>total_link_disables := total_link_disables s + 1\<rparr>)
         else check_modems c link rest (False, needs_update, s))
      else if signal_strength status \<ge> link_enable_signal_threshold c then
        (if \<not> enabled link
         then check_modems c link rest
                (True, True, s\<lparr>total_link_enables := total_link_enables s + 1\<rparr>)
         else check_modems c link rest (True, needs_update, s))
      else check_modems c link rest (should_be_enabled, needs_update, s))"

text \<open>
  The outer loop. The monitor is asked anew for every link: \<open>modems i\<close> is its answer
  while the link at position \<open>i\<close> is examined. The rebuilt link carries the default weight.
\<close>

fun scan_links ::
  "adaptive_config \<Rightarrow> bool \<Rightarrow> (nat \<Rightarrow> readings) \<Rightarrow> nat \<Rightarrow> rist_link list
     \<Rightarrow> bool \<times> adaptive_state \<Rightarrow> rist_link list \<times> bool \<times> adaptive_state" where
  "scan_links c monitor modems i [] (needs_update, s) = ([], needs_update, s)"
| "scan_links c monitor modems i (link # rest) (needs_update, s) =
     (case (if monitor then check_modems c link (modems i) (True, needs_update, s)
            else (True, needs_update, s)) of
        (should_be_enabled, needs1, s1) \<Rightarrow>
          (case scan_links c monitor modems (Suc i) rest (needs1, s1) of
             (new_links, needs2, s2) \<Rightarrow>
               (\<lparr>address = address link, port = port link,
                 enabled = should_be_enabled, weight = 100\<rparr> # new_links, needs2, s2)))"

text \<open>The third component of the result is the link list pushed in this tick, if any.\<close>

definition adaptive_link_control ::
  "push \<Rightarrow> (nat \<Rightarrow> readings) \<Rightarrow> controller \<times> rist_manager
     \<Rightarrow> controller \<times> rist_manager \<times> rist_link list option" where
  "adaptive_link_control answer modems cm =
     (case cm of (ctl, m) \<Rightarrow>
        (case rist_cfg m of
           None \<Rightarrow> (ctl, m, None)
         | Some rc \<Rightarrow>
             (case scan_links (config ctl) (has_monitor ctl) modems 0 (links rc)
                     (False, state ctl) of
                (new_links, needs_update, s1) \<Rightarrow>
                  (if needs_update
                   then (case apply_link_config answer new_links (ctl\<lparr>state := s1\<rparr>, m) of
                           (ctl2, m2) \<Rightarrow> (ctl2, m2, Some new_links))
                   else (ctl\<lparr>state := s1\<rparr>, m, None)))))"

subsection \<open>Persistence\<close>

text \<open>
  A parsed JSON document as \<open>json.load\<close> returns it; an object is the list of its items
  in order.
\<close>

datatype json =
    JNull
  | JBool bool
  | JInt int
  | JFloat rat
  | JStr string
  | JArr "json list"
  | JObj "(string \<times> json) list"

text \<open>\<open>d[k] = v\<close> on a dictionary: an existing key keeps its place, a new one goes last.\<close>

fun dict_set :: "('k \<times> 'v) list \<Rightarrow> 'k \<Rightarrow> 'v \<Rightarrow> ('k \<times> 'v) list" where
  "dict_set [] k v = [(k, v)]"
| "dict_set ((k', v') # kvs) k v =
     (if k' = k then (k, v) # kvs else (k', v') # dict_set kvs k v)"

text \<open>\<open>d.get(k)\<close> on a document: only an object has fields.\<close>

definition jget :: "json \<Rightarrow> string \<Rightarrow> json option" where
  "jget j k = (case j of JObj kvs \<Rightarrow> map_of kvs k | _ \<Rightarrow> None)"

definition and_then :: "py_error + 'a \<Rightarrow> ('a \<Rightarrow> py_error + 'b) \<Rightarrow> py_error + 'b" where
  "and_then r f = (case r of Inl e \<Rightarrow> Inl e | Inr x \<Rightarrow> f x)"

text \<open>
  \<open>if 'rist' not in config: config['rist'] = {}\<close>. On a list or a string the membership
  test works and the assignment raises; on a number, a boolean or null the test raises.
\<close>

definition ensure_rist :: "json \<Rightarrow> py_error + json" where
  "ensure_rist cfg =
     (case cfg of
        JObj kvs \<Rightarrow>
          (if map_of kvs ''rist'' = None then Inr (JObj (dict_set kvs ''rist'' (JObj [])))
           else Inr cfg)
      | JArr xs \<Rightarrow> (if JStr ''rist'' \<in> set xs then Inr cfg else Inl TypeError)
      | JStr s \<Rightarrow> (if py_in ''rist'' s then Inr cfg else Inl TypeError)
      | _ \<Rightarrow> Inl TypeError)"

text \<open>\<open>config['rist'][k] = v\<close>.\<close>

definition set_rist_key :: "string \<Rightarrow> json \<Rightarrow> json \<Rightarrow> py_error + json" where
  "set_rist_key k v cfg =
     (case cfg of
        JObj kvs \<Rightarrow>
          (case map_of kvs ''rist'' of
             None \<Rightarrow> Inl KeyError
           | Some (JObj r) \<Rightarrow> Inr (JObj (dict_set kvs ''rist'' (JObj (dict_set r k v))))
           | Some _ \<Rightarrow> Inl TypeError)
      | _ \<Rightarrow> Inl TypeError)"

definition link_json :: "rist_link \<Rightarrow> json" where
  "link_json link =
     JObj [(''address'', JStr (address link)), (''port'', JInt (port link)),
           (''enabled'', JBool (enabled link))]"

text \<open>The read-modify part of \<open>_save_config\<close>: the document to write, or the exception.\<close>

definition updated_document :: "rist_manager \<Rightarrow> json \<Rightarrow> py_error + json" where
  "updated_document m cfg =
     and_then (ensure_rist cfg) (\<lambda>c1.
     and_then (case video_cfg m of
                 None \<Rightarrow> Inr c1
               | Some vc \<Rightarrow> set_rist_key ''video_bitrate'' (JInt (vc_bitrate vc)) c1) (\<lambda>c2.
     and_then (case audio_cfg m of
                 None \<Rightarrow> Inr c2
               | Some ac \<Rightarrow> set_rist_key ''audio_bitrate'' (JInt (ac_bitrate ac)) c2) (\<lambda>c3.
     (case rist_cfg m of
        None \<Rightarrow> Inr c3
      | Some rc \<Rightarrow> set_rist_key ''links'' (JArr (map link_json (links rc))) c3))))"

text \<open>
  \<open>_save_config\<close>. \<open>file\<close> is the document in the store, \<open>None\<close> when the file is missing or
  does not parse; the result holds the document in the store afterwards. Every exception
  is caught before anything is written.
\<close>

definition save_config ::
  "rat \<Rightarrow> json option \<Rightarrow> controller \<times> rist_manager \<Rightarrow> controller \<times> json option" where
  "save_config now file cm =
     (case cm of (ctl, m) \<Rightarrow>
        (case file of
           None \<Rightarrow> (ctl, file)
         | Some cfg \<Rightarrow>
             (case updated_document m cfg of
                Inl e \<Rightarrow> (ctl, file)
              | Inr cfg' \<Rightarrow> (ctl\<lparr>config_dirty := False, last_config_save := now\<rparr>, Some cfg'))))"

subsection \<open>One tick of the control loop\<close>

text \<open>What the environment supplies during one tick.\<close>

record tick_env =
  te_stats :: "(string \<times> int) list"
  te_modems :: readings
  te_link_modems :: "nat \<Rightarrow> readings"
  te_bitrate_answer :: push
  te_links_answer :: push
  te_now_adjust :: rat
  te_now_loop :: rat
  te_now_saved :: rat

definition control_tick ::
  "tick_env \<Rightarrow> controller \<times> rist_manager \<times> json option
     \<Rightarrow> controller \<times> rist_manager \<times> json option" where
  "control_tick env cmf =
     (case cmf of (ctl, m, file) \<Rightarrow>
        (let c = config ctl;
             ctl1 = ctl\<lparr>state := update_rist_stats (te_stats env) m (state ctl)\<rparr>;
             ctl2 = (if has_monitor ctl1
                     then ctl1\<lparr>state := update_modem_stats c (te_modems env) (state ctl1)\<rparr>
                     else ctl1)
         in (case (if adaptive_bitrate_enabled c
                   then adaptive_bitrate_control (te_bitrate_answer env) (te_now_adjust env) (ctl2, m)
                   else (ctl2, m, None)) of
               (ctl3, m3, applied) \<Rightarrow>
                 (case (if adaptive_links_enabled c \<and> has_monitor ctl3
                        then adaptive_link_control (te_links_answer env) (te_link_modems env)
                               (ctl3, m3)
                        else (ctl3, m3, None)) of
                    (ctl4, m4, pushed) \<Rightarrow>
                      (if config_dirty ctl4
                          \<and> fsub (te_now_loop env) (last_config_save ctl4)
                              \<ge> of_int (config_save_interval c)
                       then (case save_config (te_now_saved env) file (ctl4, m4) of
                               (ctl5, file') \<Rightarrow> (ctl5, m4, file'))
                       else (ctl4, m4, file))))))"

section \<open>Scenarios\<close>

text \<open>
  A session manager configured with two links and a video configuration of the given
  bit rate, and a controller with the default configuration whose state holds the given
  bit rate, sampled packet loss and stability counter.
\<close>

definition scenario_link :: "string \<Rightarrow> bool \<Rightarrow> rist_link" where
  "scenario_link a e = \<lparr>address = a, port = 5004, enabled = e, weight = 100\<rparr>"

definition scenario_rist_config :: "rist_link list \<Rightarrow> rist_config" where
  "scenario_rist_config ls =
     \<lparr>links = ls, bonding = BROADCAST, sender_buffer = 1200, receiver_buffer = 1200,
      reorder_buffer = 25, rtt_min = 50, rtt_max = 500, fec_rows = 4, fec_columns = 5,
      max_retries = 10\<rparr>"

definition scenario_video :: "int \<Rightarrow> video_config" where
  "scenario_video b =
     \<lparr>vc_codec = H264, width = 1280, height = 720, framerate = 30, vc_bitrate = b,
      keyframe_interval = 60\<rparr>"

definition scenario_manager :: "int \<Rightarrow> rist_manager" where
  "scenario_manager b =
     (init_manager ''/opt/gstreamer-1.24/bin/gst-launch-1.0'')
       \<lparr>rist_cfg := Some (scenario_rist_config
                     [scenario_link ''192.168.1.100'' True, scenario_link ''192.168.2.100'' True]),
        video_cfg := Some (scenario_video b)\<rparr>"

definition scenario_controller :: "int \<Rightarrow> rat \<Rightarrow> int \<Rightarrow> controller" where
  "scenario_controller b loss periods =
     (init_controller default_config True)
       \<lparr>state := initial_state\<lparr>current_video_bitrate := b, current_packet_loss := loss,
                               stable_periods := periods\<rparr>\<rparr>"


definition scenario_all_disabled :: rist_manager where
  "scenario_all_disabled =
     (init_manager ''/opt/gstreamer-1.24/bin/gst-launch-1.0'')
       \<lparr>rist_cfg := Some (scenario_rist_config
                     [scenario_link ''192.168.1.100'' False, scenario_link ''192.168.2.100'' False])\<rparr>"

text \<open>
  \<open>same_outside_rist c c'\<close>: document \<open>c'\<close> agrees with \<open>c\<close> on every top-level field but
  \<open>rist\<close> and, where \<open>c\<close> has a \<open>rist\<close> field, on every key of it but the three the
  controller writes; a document that is not an object is the same.
\<close>

definition same_outside_rist :: "json \<Rightarrow> json \<Rightarrow> bool" where
  "same_outside_rist c c' \<longleftrightarrow>
     (\<forall>k. k \<noteq> ''rist'' \<longrightarrow> jget c' k = jget c k)
     \<and> (\<forall>r k. jget c ''rist'' = Some r \<longrightarrow>
            k \<noteq> ''video_bitrate'' \<longrightarrow> k \<noteq> ''audio_bitrate'' \<longrightarrow> k \<noteq> ''links'' \<longrightarrow>
            (\<exists>r'. jget c' ''rist'' = Some r' \<and> jget r' k = jget r k))
     \<and> ((\<forall>kvs. c \<noteq> JObj kvs) \<longrightarrow> c' = c)"

text \<open>
  A document of the store with fields that are not the controller's, at the top level and
  inside \<open>rist\<close>.
\<close>

definition scenario_document :: json where
  "scenario_document =
     JObj [(''max_br'', JInt 6000),
           (''rist'', JObj [(''profile'', JStr ''high_1080p30_opus''), (''video_bitrate'', JInt 1)]),
           (''srt_latency'', JInt 2000)]"





text \<open>
  The environment of a tick in which the session manager reports 1000 original packets
  and the given number of retransmitted ones, the monitor reports no modem, every push is
  accepted and the clock reads \<open>t\<close>; and a run of ticks, one after the other.
\<close>

definition scenario_env :: "int \<Rightarrow> rat \<Rightarrow> tick_env" where
  "scenario_env retransmitted t =
     \<lparr>te_stats = [(''sent_original_packets'', 1000), (''sent_retransmitted_packets'', retransmitted)],
      te_modems = [], te_link_modems = (\<lambda>i. []),
      te_bitrate_answer = Accepted, te_links_answer = Accepted,
      te_now_adjust = t, te_now_loop = t, te_now_saved = t\<rparr>"

definition run_ticks ::
  "tick_env list \<Rightarrow> controller \<times> rist_manager \<times> json option
     \<Rightarrow> controller \<times> rist_manager \<times> json option" where
  "run_ticks envs cmf0 = foldl (\<lambda>cmf env. control_tick env cmf) cmf0 envs"

section \<open>Properties of the diagnostic-line classifier\<close>

lemma starts_with_iff: "starts_with p s \<longleftrightarrow> (\<exists>ss. s = p @ ss)"
  by (induction p s rule: starts_with.induct) auto

text \<open>\<open>py_in\<close> is containment as a contiguous block, anywhere in the string.\<close>

lemma py_in_iff: "py_in sub s \<longleftrightarrow> (\<exists>ps ss. s = ps @ sub @ ss)"
proof (induction s)
  case Nil
  then show ?case by auto
next
  case (Cons c cs)
  show ?case
  proof
    assume "py_in sub (c # cs)"
    then consider "starts_with sub (c # cs)" | "py_in sub cs" by auto
    then show "\<exists>ps ss. c # cs = ps @ sub @ ss"
    proof cases
      case 1
      then obtain ss where "c # cs = sub @ ss" by (auto simp: starts_with_iff)
      then have "c # cs = [] @ sub @ ss" by simp
      then show ?thesis by blast
    next
      case 2
      then obtain ps ss where "cs = ps @ sub @ ss" using Cons.IH by blast
      then have "c # cs = (c # ps) @ sub @ ss" by simp
      then show ?thesis by blast
    qed
  next
    assume "\<exists>ps ss. c # cs = ps @ sub @ ss"
    then obtain ps ss where e: "c # cs = ps @ sub @ ss" by blast
    show "py_in sub (c # cs)"
    proof (cases ps)
      case Nil
      then have "starts_with sub (c # cs)" using e by (auto simp: starts_with_iff)
      then show ?thesis by simp
    next
      case (Cons p ps')
      then have "cs = ps' @ sub @ ss" using e by simp
      then have "py_in sub cs" using Cons.IH by blast
      then show ?thesis by simp
    qed
  qed
qed

text \<open>
  Claim C10. The classifier tests its signatures as substrings of the lowercased line, in
  a fixed order. A line whose lowercased text contains \<open>eos\<close> anywhere, and none of the
  signatures tested before (disk full, could not open resource, connection refused,
  internal data flow error), is classified as "stream unexpectedly ended"; the result is
  never \<open>None\<close>. The line need not be about an end of stream: the witness is a line with
  the word VIDEOS.
\<close>

theorem parse_gst_error_eos:
  assumes "py_in ''eos'' (lower line)"
    and "\<not> py_in ''no space left on device'' (lower line)"
    and "\<not> py_in ''could not open resource'' (lower line)"
    and "\<not> py_in ''connection refused'' (lower line)"
    and "\<not> py_in ''internal data flow error'' (lower line)"
  shows "parse_gst_error line = Some ''RIST Stream unerwartet beendet''"
  using assms by (simp add: parse_gst_error_def msg_stream_ended_def)

theorem parse_gst_error_eos_witness:
  "py_in ''eos'' (lower ''Muxing VIDEOS to file'')
   \<and> \<not> py_in ''no space left on device'' (lower ''Muxing VIDEOS to file'')
   \<and> \<not> py_in ''could not open resource'' (lower ''Muxing VIDEOS to file'')
   \<and> \<not> py_in ''connection refused'' (lower ''Muxing VIDEOS to file'')
   \<and> \<not> py_in ''internal data flow error'' (lower ''Muxing VIDEOS to file'')
   \<and> parse_gst_error ''Muxing VIDEOS to file'' = Some ''RIST Stream unerwartet beendet''"
proof -
  have h1: "py_in ''eos'' (lower ''Muxing VIDEOS to file'')" by code_simp
  have h2: "\<not> py_in ''no space left on device'' (lower ''Muxing VIDEOS to file'')" by code_simp
  have h3: "\<not> py_in ''could not open resource'' (lower ''Muxing VIDEOS to file'')" by code_simp
  have h4: "\<not> py_in ''connection refused'' (lower ''Muxing VIDEOS to file'')" by code_simp
  have h5: "\<not> py_in ''internal data flow error'' (lower ''Muxing VIDEOS to file'')" by code_simp
  show ?thesis using h1 h2 h3 h4 h5 parse_gst_error_eos [OF h1 h2 h3 h4 h5] by simp
qed

section \<open>Properties of the sampling step\<close>

lemma float_of_int_100: "float_of_int 100 = 100"
  by code_simp

text \<open>
  Claim C7. For every stats sample the controller takes (a non-empty answer of
  \<open>get_stats\<close>), with \<open>original\<close> and \<open>retransmitted\<close> the two packet counts of the sample
  (0 for a count the sample lacks): the packet-loss percentage stored in the state is
  \<open>retransmitted / original * 100\<close> when \<open>original > 0\<close>, and 0 when \<open>original = 0\<close>. The
  quotient and the product are Python float operations, each rounded to binary64.
\<close>

theorem packet_loss_percentage:
  assumes "stats \<noteq> []"
    and "stats_get stats ''sent_original_packets'' 0 = original"
    and "stats_get stats ''sent_retransmitted_packets'' 0 = retransmitted"
  shows "(0 < original \<longrightarrow>
            current_packet_loss (update_rist_stats stats m s)
              = fl (fl (of_int retransmitted / of_int original) * 100))
         \<and> (original = 0 \<longrightarrow> current_packet_loss (update_rist_stats stats m s) = 0)"
  using assms
  by (auto simp: update_rist_stats_def Let_def fmul_def int_truediv_def float_of_int_100
           split: option.splits)

theorem packet_loss_percentage_witness:
  "[(''sent_original_packets'', 1000), (''sent_retransmitted_packets'', 125)] \<noteq> []
   \<and> stats_get [(''sent_original_packets'', 1000), (''sent_retransmitted_packets'', 125)]
        ''sent_original_packets'' 0 = 1000
   \<and> stats_get [(''sent_original_packets'', 1000), (''sent_retransmitted_packets'', 125)]
        ''sent_retransmitted_packets'' 0 = 125
   \<and> (0::int) < 1000
   \<and> current_packet_loss
        (update_rist_stats [(''sent_original_packets'', 1000), (''sent_retransmitted_packets'', 125)]
           (scenario_manager 2000000) initial_state) = 25 / 2
   \<and> [(''sent_retransmitted_packets'', 3::int)] \<noteq> []
   \<and> stats_get [(''sent_retransmitted_packets'', 3)] ''sent_original_packets'' 0 = 0
   \<and> stats_get [(''sent_retransmitted_packets'', 3)] ''sent_retransmitted_packets'' 0 = 3
   \<and> current_packet_loss
        (update_rist_stats [(''sent_retransmitted_packets'', 3)]
           (scenario_manager 2000000) initial_state) = 0"
proof -
  let ?a = "[(''sent_original_packets'', 1000::int), (''sent_retransmitted_packets'', 125)]"
  let ?b = "[(''sent_retransmitted_packets'', 3::int)]"
  have a1: "?a \<noteq> []" and b1: "?b \<noteq> []" by simp_all
  have a2: "stats_get ?a ''sent_original_packets'' 0 = 1000" by code_simp
  have a3: "stats_get ?a ''sent_retransmitted_packets'' 0 = 125" by code_simp
  have b2: "stats_get ?b ''sent_original_packets'' 0 = 0" by code_simp
  have b3: "stats_get ?b ''sent_retransmitted_packets'' 0 = 3" by code_simp
  have v: "fl (fl (of_int 125 / of_int 1000) * 100) = 25 / 2" by code_simp
  have ea: "current_packet_loss (update_rist_stats ?a (scenario_manager 2000000) initial_state)
              = 25 / 2"
    using packet_loss_percentage [OF a1 a2 a3, of "scenario_manager 2000000" initial_state] v
    by simp
  have eb: "current_packet_loss (update_rist_stats ?b (scenario_manager 2000000) initial_state)
              = 0"
    using packet_loss_percentage [OF b1 b2 b3, of "scenario_manager 2000000" initial_state]
    by simp
  show ?thesis using a1 a2 a3 b1 b2 b3 ea eb by simp
qed

section \<open>Properties of the bitrate policy\<close>






section \<open>Properties of a failed push\<close>

lemma apply_video_bitrate_failed:
  assumes "answer \<noteq> Accepted \<or> video_cfg m = None"
  shows "apply_video_bitrate answer b (ctl, m) = (ctl, m)"
  using assms
  by (cases answer) (auto simp: apply_video_bitrate_def hot_reload_video_def split: option.splits)

text \<open>
  Claim C4, as the specification states it: in a tick in which the push of a new bit rate
  to the session manager fails, the \<open>AdaptiveState\<close> is left unchanged, in particular
  \<open>total_bitrate_decreases\<close>, \<open>total_bitrate_increases\<close>, \<open>stable_periods\<close> and
  \<open>last_adjustment_time\<close>. The source does otherwise: \<open>_apply_video_bitrate\<close> returns
  nothing, and its caller updates the three fields after every call. With a current bit
  rate of 2,000,000, a packet loss of 7.0, a stability counter of 3 and a push the session
  manager rejects, the manager is unchanged and yet the decrease count goes from 0 to 1,
  the stability counter from 3 to 0 and the time of the last adjustment from 0 to the
  clock's reading.
\<close>

theorem failed_push_changes_counters_counterexample:
  "snd (snd (adaptive_bitrate_control Rejected 1000
        (scenario_controller 2000000 7 3, scenario_manager 2000000))) = Some 1700000
   \<and> fst (snd (adaptive_bitrate_control Rejected 1000
        (scenario_controller 2000000 7 3, scenario_manager 2000000))) = scenario_manager 2000000
   \<and> total_bitrate_decreases (state (scenario_controller 2000000 7 3)) = 0
   \<and> total_bitrate_decreases (state (fst (adaptive_bitrate_control Rejected 1000
        (scenario_controller 2000000 7 3, scenario_manager 2000000)))) = 1
   \<and> stable_periods (state (scenario_controller 2000000 7 3)) = 3
   \<and> stable_periods (state (fst (adaptive_bitrate_control Rejected 1000
        (scenario_controller 2000000 7 3, scenario_manager 2000000)))) = 0
   \<and> last_adjustment_time (state (scenario_controller 2000000 7 3)) = 0
   \<and> last_adjustment_time (state (fst (adaptive_bitrate_control Rejected 1000
        (scenario_controller 2000000 7 3, scenario_manager 2000000)))) = 1000
   \<and> state (fst (adaptive_bitrate_control Rejected 1000
        (scenario_controller 2000000 7 3, scenario_manager 2000000)))
      \<noteq> state (scenario_controller 2000000 7 3)"
  by code_simp

text \<open>
  Claim C4, amended: when the push of a new bit rate fails (the session manager rejects
  it, the call raises, or there is no video configuration to rebuild), the apply step
  \<open>_apply_video_bitrate\<close> leaves the controller and the session manager unchanged, so the
  cached \<open>current_video_bitrate\<close> and the dirty flag keep their values; the bitrate policy
  that made the push still resets \<open>stable_periods\<close> to 0, sets \<open>last_adjustment_time\<close> to
  the current time and counts the adjustment: a decrease adds one to
  \<open>total_bitrate_decreases\<close>, an increase adds one to \<open>total_bitrate_increases\<close>.
\<close>

theorem failed_push_effect:
  assumes "answer \<noteq> Accepted \<or> video_cfg m = None"
  shows "apply_video_bitrate answer b (ctl, m) = (ctl, m)
     \<and> (\<forall>ctl' m' b'. adaptive_bitrate_control answer now (ctl, m) = (ctl', m', Some b') \<longrightarrow>
           m' = m
         \<and> config_dirty ctl' = config_dirty ctl
         \<and> current_video_bitrate (state ctl') = current_video_bitrate (state ctl)
         \<and> stable_periods (state ctl') = 0
         \<and> last_adjustment_time (state ctl') = now
         \<and> (b' < current_video_bitrate (state ctl) \<longrightarrow>
                total_bitrate_decreases (state ctl') = total_bitrate_decreases (state ctl) + 1
              \<and> total_bitrate_increases (state ctl') = total_bitrate_increases (state ctl))
         \<and> (b' > current_video_bitrate (state ctl) \<longrightarrow>
                total_bitrate_increases (state ctl') = total_bitrate_increases (state ctl) + 1
              \<and> total_bitrate_decreases (state ctl') = total_bitrate_decreases (state ctl)))"
proof -
  have f: "apply_video_bitrate answer x (c, m) = (c, m)" for x c
    using assms by (rule apply_video_bitrate_failed)
  have c1: "m' = m"
    if "adaptive_bitrate_control answer now (ctl, m) = (ctl', m', Some b')" for ctl' m' b'
    using that by (auto simp: adaptive_bitrate_control_def Let_def f split: if_splits)
  have c2: "config_dirty ctl' = config_dirty ctl"
    if "adaptive_bitrate_control answer now (ctl, m) = (ctl', m', Some b')" for ctl' m' b'
    using that by (auto simp: adaptive_bitrate_control_def Let_def f split: if_splits)
  have c3: "current_video_bitrate (state ctl') = current_video_bitrate (state ctl)"
    if "adaptive_bitrate_control answer now (ctl, m) = (ctl', m', Some b')" for ctl' m' b'
    using that by (auto simp: adaptive_bitrate_control_def Let_def f split: if_splits)
  have c4: "stable_periods (state ctl') = 0"
    if "adaptive_bitrate_control answer now (ctl, m) = (ctl', m', Some b')" for ctl' m' b'
    using that by (auto simp: adaptive_bitrate_control_def Let_def f split: if_splits)
  have c5: "last_adjustment_time (state ctl') = now"
    if "adaptive_bitrate_control answer now (ctl, m) = (ctl', m', Some b')" for ctl' m' b'
    using that by (auto simp: adaptive_bitrate_control_def Let_def f split: if_splits)
  have c6: "total_bitrate_decreases (state ctl') = total_bitrate_decreases (state ctl) + 1
              \<and> total_bitrate_increases (state ctl') = total_bitrate_increases (state ctl)"
    if "adaptive_bitrate_control answer now (ctl, m) = (ctl', m', Some b')"
      and "b' < current_video_bitrate (state ctl)" for ctl' m' b'
    using that by (auto simp: adaptive_bitrate_control_def Let_def f split: if_splits)
  have c7: "total_bitrate_increases (state ctl') = total_bitrate_increases (state ctl) + 1
              \<and> total_bitrate_decreases (state ctl') = total_bitrate_decreases (state ctl)"
    if "adaptive_bitrate_control answer now (ctl, m) = (ctl', m', Some b')"
      and "b' > current_video_bitrate (state ctl)" for ctl' m' b'
    using that by (auto simp: adaptive_bitrate_control_def Let_def f split: if_splits)
  have inner: "m' = m
         \<and> config_dirty ctl' = config_dirty ctl
         \<and> current_video_bitrate (state ctl') = current_video_bitrate (state ctl)
         \<and> stable_periods (state ctl') = 0
         \<and> last_adjustment_time (state ctl') = now
         \<and> (b' < current_video_bitrate (state ctl) \<longrightarrow>
                total_bitrate_decreases (state ctl') = total_bitrate_decreases (state ctl) + 1
              \<and> total_bitrate_increases (state ctl') = total_bitrate_increases (state ctl))
         \<and> (b' > current_video_bitrate (state ctl) \<longrightarrow>
                total_bitrate_increases (state ctl') = total_bitrate_increases (state ctl) + 1
              \<and> total_bitrate_decreases (state ctl') = total_bitrate_decreases (state ctl))"
    if r: "adaptive_bitrate_control answer now (ctl, m) = (ctl', m', Some b')" for ctl' m' b'
    using c1 [OF r] c2 [OF r] c3 [OF r] c4 [OF r] c5 [OF r] c6 [OF r] c7 [OF r] by simp
  show ?thesis using f inner by simp
qed

theorem failed_push_effect_witness:
  "PushRaises \<noteq> Accepted
   \<and> apply_video_bitrate PushRaises 1700000
        (scenario_controller 2000000 7 3, scenario_manager 2000000)
      = (scenario_controller 2000000 7 3, scenario_manager 2000000)
   \<and> adaptive_bitrate_control PushRaises 1000
        (scenario_controller 2000000 7 3, scenario_manager 2000000)
      = ((scenario_controller 2000000 7 3)
           \<lparr>state := (state (scenario_controller 2000000 7 3))
              \<lparr>stable_periods := 0, total_bitrate_decreases := 1, last_adjustment_time := 1000\<rparr>\<rparr>,
         scenario_manager 2000000, Some 1700000)
   \<and> (1700000::int) < current_video_bitrate (state (scenario_controller 2000000 7 3))
   \<and> stable_periods (state (fst (adaptive_bitrate_control PushRaises 1000
        (scenario_controller 2000000 7 3, scenario_manager 2000000)))) = 0
   \<and> total_bitrate_decreases (state (fst (adaptive_bitrate_control PushRaises 1000
        (scenario_controller 2000000 7 3, scenario_manager 2000000))))
      = total_bitrate_decreases (state (scenario_controller 2000000 7 3)) + 1"
proof -
  let ?c = "scenario_controller 2000000 7 3" and ?m = "scenario_manager 2000000"
  let ?c' = "?c\<lparr>state := (state ?c)
              \<lparr>stable_periods := 0, total_bitrate_decreases := 1, last_adjustment_time := 1000\<rparr>\<rparr>"
  have h: "PushRaises \<noteq> Accepted \<or> video_cfg ?m = None" by simp
  have r: "adaptive_bitrate_control PushRaises 1000 (?c, ?m) = (?c', ?m, Some 1700000)"
    by code_simp
  have lt: "(1700000::int) < current_video_bitrate (state ?c)" by code_simp
  note t = failed_push_effect [OF h, of 1700000 ?c 1000]
  from t have a: "apply_video_bitrate PushRaises 1700000 (?c, ?m) = (?c, ?m)" by blast
  from t r have s: "stable_periods (state ?c') = 0" by blast
  from t r lt have d: "total_bitrate_decreases (state ?c') = total_bitrate_decreases (state ?c) + 1"
    by blast
  show ?thesis using h a r lt s d by simp
qed

section \<open>Properties of the session manager\<close>

lemma monitor_stderr_keeps:
  "is_streaming (monitor_stderr ls m) = is_streaming m"
  "rist_cfg (monitor_stderr ls m) = rist_cfg m"
  "video_cfg (monitor_stderr ls m) = video_cfg m"
  "audio_cfg (monitor_stderr ls m) = audio_cfg m"
  "process (monitor_stderr ls m) = process m"
  "gst_launch (monitor_stderr ls m) = gst_launch m"
  by (induction ls arbitrary: m; simp add: Let_def split: option.splits)+









lemma start_streaming_configured:
  assumes "start has_plugin env m = Inr (ok, m')"
    and "is_streaming m \<longrightarrow> rist_cfg m \<noteq> None \<and> process m \<noteq> None"
  shows "is_streaming m' \<longrightarrow> rist_cfg m' \<noteq> None \<and> process m' \<noteq> None"
  using assms
  by (auto simp: start_def build_pipeline_command_def
           split: if_splits option.splits launch.splits sum.splits)

lemma stop_streaming_configured:
  assumes "stop env m = (ok, m')"
    and "is_streaming m \<longrightarrow> rist_cfg m \<noteq> None \<and> process m \<noteq> None"
  shows "is_streaming m' \<longrightarrow> rist_cfg m' \<noteq> None \<and> process m' \<noteq> None"
  using assms by (auto simp: stop_def split: if_splits shutdown.splits)

text \<open>In every reachable state, a streaming session has a configuration and a process.\<close>

lemma reachable_streaming_configured:
  "reachable m \<Longrightarrow> is_streaming m \<longrightarrow> rist_cfg m \<noteq> None \<and> process m \<noteq> None"
proof (induction rule: reachable.induct)
  case (fresh launcher)
  then show ?case by (simp add: init_manager_def)
next
  case (configured m rc vc ac m')
  then show ?case by (auto simp: configure_def split: if_splits)
next
  case (started m has_plugin env ok m')
  then show ?case using start_streaming_configured by blast
next
  case (stopped m env ok m')
  then show ?case using stop_streaming_configured by blast
next
  case (monitored m ls)
  then show ?case by (simp add: monitor_stderr_keeps)
next
  case (exited m)
  then show ?case by (auto simp: process_exits_def)
next
  case (updated m has_plugin env_stop env_start b ok m')
  show ?case
  proof (cases "video_cfg m")
    case None
    then have "m' = m" using updated.hyps(2) by (simp add: update_bitrate_def)
    then show ?thesis using updated.IH by simp
  next
    case (Some vc)
    let ?m1 = "m\<lparr>video_cfg := Some (vc\<lparr>vc_bitrate := b\<rparr>)\<rparr>"
    have i1: "is_streaming ?m1 \<longrightarrow> rist_cfg ?m1 \<noteq> None \<and> process ?m1 \<noteq> None"
      using updated.IH by simp
    show ?thesis
    proof (cases "is_streaming m")
      case False
      then have "m' = ?m1" using updated.hyps(2) Some by (simp add: update_bitrate_def Let_def)
      then show ?thesis using False by simp
    next
      case True
      obtain ok2 m2 where st: "stop env_stop ?m1 = (ok2, m2)" by (cases "stop env_stop ?m1")
      have i2: "is_streaming m2 \<longrightarrow> rist_cfg m2 \<noteq> None \<and> process m2 \<noteq> None"
        using stop_streaming_configured [OF st i1] .
      have "start has_plugin env_start m2 = Inr (ok, m')"
        using updated.hyps(2) Some True st by (simp add: update_bitrate_def Let_def)
      then show ?thesis using start_streaming_configured i2 by blast
    qed
  qed
qed

lemma scenario_all_disabled_running_reachable:
  "reachable (scenario_all_disabled
      \<lparr>process := Some \<lparr>pid = 4242, exited = False\<rparr>, is_streaming := True\<rparr>)"
proof -
  let ?l = "''/opt/gstreamer-1.24/bin/gst-launch-1.0''"
  let ?rc = "scenario_rist_config
       [scenario_link ''192.168.1.100'' False, scenario_link ''192.168.2.100'' False]"
  have r0: "reachable (init_manager ?l)" by (rule reachable.fresh)
  have c: "configure ?rc None None (init_manager ?l) = Inr scenario_all_disabled"
    by (simp add: configure_def init_manager_def scenario_all_disabled_def)
  have r1: "reachable scenario_all_disabled" using reachable.configured [OF r0 c] .
  have s: "start (\<lambda>plugin. True) (Alive 4242) scenario_all_disabled
      = Inr (True, scenario_all_disabled
               \<lparr>process := Some \<lparr>pid = 4242, exited = False\<rparr>, is_streaming := True\<rparr>)"
    by (simp add: start_def scenario_all_disabled_def init_manager_def
          build_pipeline_command_def)
  show ?thesis using reachable.started [OF r1 s] .
qed

text \<open>
  Claim C9, as the specification states it: in every state in which a session is running,
  the transport configuration has at least one link with \<open>enabled = true\<close>; the session
  manager never launches or keeps a pipeline whose links are all disabled. The source
  checks no link flag: configured with two disabled links, \<open>start()\<close> launches the
  pipeline with an empty address list and, the process being alive after the grace
  second, reports success. The resulting state is reachable and streaming, and none of
  its links is enabled.
\<close>

theorem running_without_enabled_link_counterexample:
  "start (\<lambda>plugin. True) (Alive 4242) scenario_all_disabled
     = Inr (True, scenario_all_disabled
              \<lparr>process := Some \<lparr>pid = 4242, exited = False\<rparr>, is_streaming := True\<rparr>)
   \<and> reachable (scenario_all_disabled
        \<lparr>process := Some \<lparr>pid = 4242, exited = False\<rparr>, is_streaming := True\<rparr>)
   \<and> is_streaming (scenario_all_disabled
        \<lparr>process := Some \<lparr>pid = 4242, exited = False\<rparr>, is_streaming := True\<rparr>)
   \<and> map_option (\<lambda>rc. filter enabled (links rc))
        (rist_cfg (scenario_all_disabled
           \<lparr>process := Some \<lparr>pid = 4242, exited = False\<rparr>, is_streaming := True\<rparr>)) = Some []
   \<and> build_pipeline_command (\<lambda>plugin. True) scenario_all_disabled
     = Inr [''/opt/gstreamer-1.24/bin/gst-launch-1.0'', ''!'', ''ristsink'', ''address='',
            ''bonding-method=broadcast'', ''sender-buffer=1200'', ''stats-update-interval=1000'']"
proof -
  have a: "start (\<lambda>plugin. True) (Alive 4242) scenario_all_disabled
     = Inr (True, scenario_all_disabled
              \<lparr>process := Some \<lparr>pid = 4242, exited = False\<rparr>, is_streaming := True\<rparr>)"
    by (simp add: start_def scenario_all_disabled_def init_manager_def
          build_pipeline_command_def)
  have b: "map_option (\<lambda>rc. filter enabled (links rc))
        (rist_cfg (scenario_all_disabled
           \<lparr>process := Some \<lparr>pid = 4242, exited = False\<rparr>, is_streaming := True\<rparr>)) = Some []"
    by (simp add: scenario_all_disabled_def scenario_rist_config_def scenario_link_def)
  have c: "build_pipeline_command (\<lambda>plugin. True) scenario_all_disabled
     = Inr [''/opt/gstreamer-1.24/bin/gst-launch-1.0'', ''!'', ''ristsink'', ''address='',
            ''bonding-method=broadcast'', ''sender-buffer=1200'', ''stats-update-interval=1000'']"
    by code_simp
  show ?thesis using a b c scenario_all_disabled_running_reachable by simp
qed

text \<open>
  Claim C9, amended: in every state in which a session is running, a transport
  configuration and a process handle are present. The links' \<open>enabled\<close> flags are not
  checked before the launch: with one configured link the pipeline addresses that link
  whatever its flag, and otherwise it lists exactly the enabled links, possibly none.
\<close>

theorem running_session_configured:
  "(reachable m \<and> is_streaming m \<longrightarrow> rist_cfg m \<noteq> None \<and> process m \<noteq> None)
   \<and> (length (links rc) \<noteq> 1 \<longrightarrow>
        build_rist_pipeline rc
          = [''ristsink'',
             ''address='' @ join '','' (map link_endpoint (filter enabled (links rc))),
             ''bonding-method='' @ bonding_value (bonding rc),
             ''sender-buffer='' @ str_int (sender_buffer rc), ''stats-update-interval=1000''])
   \<and> (links rc = [link] \<longrightarrow>
        build_rist_pipeline rc
          = [''ristsink'', ''address='' @ address link, ''port='' @ str_int (port link),
             ''sender-buffer='' @ str_int (sender_buffer rc), ''stats-update-interval=1000''])"
proof (intro conjI impI)
  assume "reachable m \<and> is_streaming m"
  then show "rist_cfg m \<noteq> None" "process m \<noteq> None"
    using reachable_streaming_configured by blast+
next
  assume "length (links rc) \<noteq> 1"
  then show "build_rist_pipeline rc
          = [''ristsink'',
             ''address='' @ join '','' (map link_endpoint (filter enabled (links rc))),
             ''bonding-method='' @ bonding_value (bonding rc),
             ''sender-buffer='' @ str_int (sender_buffer rc), ''stats-update-interval=1000'']"
    by (cases "links rc" rule: list.exhaust; simp add: build_rist_pipeline_def Let_def split: list.splits)
next
  assume "links rc = [link]"
  then show "build_rist_pipeline rc
          = [''ristsink'', ''address='' @ address link, ''port='' @ str_int (port link),
             ''sender-buffer='' @ str_int (sender_buffer rc), ''stats-update-interval=1000'']"
    by (simp add: build_rist_pipeline_def)
qed

theorem running_session_configured_witness:
  "reachable (scenario_all_disabled
      \<lparr>process := Some \<lparr>pid = 4242, exited = False\<rparr>, is_streaming := True\<rparr>)
   \<and> is_streaming (scenario_all_disabled
      \<lparr>process := Some \<lparr>pid = 4242, exited = False\<rparr>, is_streaming := True\<rparr>)
   \<and> rist_cfg (scenario_all_disabled
      \<lparr>process := Some \<lparr>pid = 4242, exited = False\<rparr>, is_streaming := True\<rparr>) \<noteq> None
   \<and> process (scenario_all_disabled
      \<lparr>process := Some \<lparr>pid = 4242, exited = False\<rparr>, is_streaming := True\<rparr>) \<noteq> None
   \<and> length (links (scenario_rist_config
        [scenario_link ''192.168.1.100'' False, scenario_link ''192.168.2.100'' True])) \<noteq> 1
   \<and> build_rist_pipeline (scenario_rist_config
        [scenario_link ''192.168.1.100'' False, scenario_link ''192.168.2.100'' True])
      = [''ristsink'', ''address=192.168.2.100:5004'', ''bonding-method=broadcast'',
         ''sender-buffer=1200'', ''stats-update-interval=1000'']
   \<and> links (scenario_rist_config [scenario_link ''192.168.1.100'' False])
      = [scenario_link ''192.168.1.100'' False]
   \<and> build_rist_pipeline (scenario_rist_config [scenario_link ''192.168.1.100'' False])
      = [''ristsink'', ''address=192.168.1.100'', ''port=5004'', ''sender-buffer=1200'',
         ''stats-update-interval=1000'']"
proof -
  let ?m = "scenario_all_disabled
      \<lparr>process := Some \<lparr>pid = 4242, exited = False\<rparr>, is_streaming := True\<rparr>"
  let ?rc2 = "scenario_rist_config
        [scenario_link ''192.168.1.100'' False, scenario_link ''192.168.2.100'' True]"
  let ?rc1 = "scenario_rist_config [scenario_link ''192.168.1.100'' False]"
  have r: "reachable ?m" by (rule scenario_all_disabled_running_reachable)
  have s: "is_streaming ?m" by simp
  have l2: "length (links ?rc2) \<noteq> 1" by (simp add: scenario_rist_config_def)
  have l1: "links ?rc1 = [scenario_link ''192.168.1.100'' False]"
    by (simp add: scenario_rist_config_def)
  have v2: "[''ristsink'',
             ''address='' @ join '','' (map link_endpoint (filter enabled (links ?rc2))),
             ''bonding-method='' @ bonding_value (bonding ?rc2),
             ''sender-buffer='' @ str_int (sender_buffer ?rc2), ''stats-update-interval=1000'']
      = [''ristsink'', ''address=192.168.2.100:5004'', ''bonding-method=broadcast'',
         ''sender-buffer=1200'', ''stats-update-interval=1000'']"
    by code_simp
  have v1: "[''ristsink'', ''address='' @ address (scenario_link ''192.168.1.100'' False),
             ''port='' @ str_int (port (scenario_link ''192.168.1.100'' False)),
             ''sender-buffer='' @ str_int (sender_buffer ?rc1), ''stats-update-interval=1000'']
      = [''ristsink'', ''address=192.168.1.100'', ''port=5004'', ''sender-buffer=1200'',
         ''stats-update-interval=1000'']"
    by code_simp
  note t2 = running_session_configured [of ?m ?rc2]
  note t1 = running_session_configured [of ?m ?rc1 "scenario_link ''192.168.1.100'' False"]
  from t2 r s have c: "rist_cfg ?m \<noteq> None" "process ?m \<noteq> None" by blast+
  from t2 l2 have b2: "build_rist_pipeline ?rc2
      = [''ristsink'',
             ''address='' @ join '','' (map link_endpoint (filter enabled (links ?rc2))),
             ''bonding-method='' @ bonding_value (bonding ?rc2),
             ''sender-buffer='' @ str_int (sender_buffer ?rc2), ''stats-update-interval=1000'']"
    by blast
  from t1 l1 have b1: "build_rist_pipeline ?rc1
      = [''ristsink'', ''address='' @ address (scenario_link ''192.168.1.100'' False),
             ''port='' @ str_int (port (scenario_link ''192.168.1.100'' False)),
             ''sender-buffer='' @ str_int (sender_buffer ?rc1), ''stats-update-interval=1000'']"
    by blast
  show ?thesis using r s c l2 l1 b2 [unfolded v2] b1 [unfolded v1] by blast
qed

section \<open>Properties of the persistence step\<close>

lemma map_of_dict_set:
  "map_of (dict_set kvs k v) k' = (if k' = k then Some v else map_of kvs k')"
  by (induction kvs) auto

lemma same_outside_rist_refl: "same_outside_rist c c"
  by (auto simp: same_outside_rist_def)

lemma same_outside_rist_trans:
  assumes "same_outside_rist a b" and "same_outside_rist b c"
    and "\<And>kvs. a = JObj kvs \<Longrightarrow> \<exists>kvs'. b = JObj kvs'"
  shows "same_outside_rist a c"
  unfolding same_outside_rist_def
proof (intro conjI allI impI)
  fix k :: string assume "k \<noteq> ''rist''"
  then show "jget c k = jget a k"
    using assms(1,2) by (simp add: same_outside_rist_def)
next
  fix r k assume h: "jget a ''rist'' = Some r" "k \<noteq> ''video_bitrate''"
    "k \<noteq> ''audio_bitrate''" "k \<noteq> ''links''"
  then obtain r' where r': "jget b ''rist'' = Some r'" "jget r' k = jget r k"
    using assms(1) unfolding same_outside_rist_def by blast
  then obtain r'' where "jget c ''rist'' = Some r''" "jget r'' k = jget r' k"
    using assms(2) h unfolding same_outside_rist_def by blast
  then show "\<exists>r'. jget c ''rist'' = Some r' \<and> jget r' k = jget r k"
    using r' by simp
next
  assume n: "\<forall>kvs. a \<noteq> JObj kvs"
  then have "b = a" using assms(1) by (simp add: same_outside_rist_def)
  then show "c = a" using assms(2) n by (simp add: same_outside_rist_def)
qed

lemma ensure_rist_frame:
  assumes "ensure_rist c = Inr c'"
  shows "same_outside_rist c c'" and "\<And>kvs. c = JObj kvs \<Longrightarrow> \<exists>kvs'. c' = JObj kvs'"
  using assms
  by (auto simp: ensure_rist_def same_outside_rist_def jget_def map_of_dict_set
           split: json.splits if_splits)

lemma set_rist_key_frame:
  assumes "set_rist_key k0 v c = Inr c'"
    and "k0 = ''video_bitrate'' \<or> k0 = ''audio_bitrate'' \<or> k0 = ''links''"
  shows "same_outside_rist c c'" and "\<And>kvs. c = JObj kvs \<Longrightarrow> \<exists>kvs'. c' = JObj kvs'"
  using assms
  by (auto simp: set_rist_key_def same_outside_rist_def jget_def map_of_dict_set
           split: json.splits option.splits)

lemma updated_document_frame:
  assumes "updated_document m c = Inr c'"
  shows "same_outside_rist c c'"
proof -
  from assms obtain c1 c2 c3 where
    s1: "ensure_rist c = Inr c1"
    and s2: "(case video_cfg m of None \<Rightarrow> Inr c1
              | Some vc \<Rightarrow> set_rist_key ''video_bitrate'' (JInt (vc_bitrate vc)) c1) = Inr c2"
    and s3: "(case audio_cfg m of None \<Rightarrow> Inr c2
              | Some ac \<Rightarrow> set_rist_key ''audio_bitrate'' (JInt (ac_bitrate ac)) c2) = Inr c3"
    and s4: "(case rist_cfg m of None \<Rightarrow> Inr c3
              | Some rc \<Rightarrow> set_rist_key ''links'' (JArr (map link_json (links rc))) c3) = Inr c'"
    by (auto simp: updated_document_def and_then_def split: sum.splits)
  have f1: "same_outside_rist c c1" "\<And>kvs. c = JObj kvs \<Longrightarrow> \<exists>kvs'. c1 = JObj kvs'"
    using ensure_rist_frame [OF s1] by blast+
  have f2: "same_outside_rist c1 c2" "\<And>kvs. c1 = JObj kvs \<Longrightarrow> \<exists>kvs'. c2 = JObj kvs'"
    using s2 set_rist_key_frame [of "''video_bitrate''" _ c1 c2]
    by (auto simp: same_outside_rist_refl split: option.splits)
  have f3: "same_outside_rist c2 c3" "\<And>kvs. c2 = JObj kvs \<Longrightarrow> \<exists>kvs'. c3 = JObj kvs'"
    using s3 set_rist_key_frame [of "''audio_bitrate''" _ c2 c3]
    by (auto simp: same_outside_rist_refl split: option.splits)
  have f4: "same_outside_rist c3 c'"
    using s4 set_rist_key_frame [of "''links''" _ c3 c']
    by (auto simp: same_outside_rist_refl split: option.splits)
  have g2: "same_outside_rist c c2" "\<And>kvs. c = JObj kvs \<Longrightarrow> \<exists>kvs'. c2 = JObj kvs'"
    using same_outside_rist_trans [OF f1(1) f2(1)] f1(2) f2(2) by blast+
  have g3: "same_outside_rist c c3" "\<And>kvs. c = JObj kvs \<Longrightarrow> \<exists>kvs'. c3 = JObj kvs'"
    using same_outside_rist_trans [OF g2(1) f3(1)] g2(2) f3(2) by blast+
  show ?thesis using same_outside_rist_trans [OF g3(1) f4] g3(2) by blast
qed

text \<open>
  Claim C8. For every JSON document in the store, the persistence step reads the whole
  document, changes only its own keys and writes the whole document back: the document
  in the store afterwards has every top-level field other than \<open>rist\<close> as before, and,
  where the document had a \<open>rist\<close> subtree, every key of the subtree other than
  \<open>video_bitrate\<close>, \<open>audio_bitrate\<close> and \<open>links\<close> as before. A document that is not an
  object is left as it is (the step fails before it writes, or writes it back unchanged).
  Failures of the file system during the write are outside the model.
\<close>

theorem save_config_frame:
  assumes "save_config now (Some cfg) (ctl, m) = (ctl', file')"
  shows "file' \<noteq> None
     \<and> (\<forall>cfg'. file' = Some cfg' \<longrightarrow>
           (\<forall>k. k \<noteq> ''rist'' \<longrightarrow> jget cfg' k = jget cfg k)
         \<and> (\<forall>r k. jget cfg ''rist'' = Some r \<longrightarrow>
                k \<noteq> ''video_bitrate'' \<longrightarrow> k \<noteq> ''audio_bitrate'' \<longrightarrow> k \<noteq> ''links'' \<longrightarrow>
                (\<exists>r'. jget cfg' ''rist'' = Some r' \<and> jget r' k = jget r k))
         \<and> ((\<forall>kvs. cfg \<noteq> JObj kvs) \<longrightarrow> cfg' = cfg))"
proof (cases "updated_document m cfg")
  case (Inl e)
  then have "file' = Some cfg" using assms by (simp add: save_config_def)
  then show ?thesis by simp
next
  case (Inr c')
  then have f: "file' = Some c'" using assms by (simp add: save_config_def)
  have "same_outside_rist cfg c'" using updated_document_frame [OF Inr] .
  then show ?thesis using f unfolding same_outside_rist_def by simp
qed

theorem save_config_frame_witness:
  "save_config 100 (Some scenario_document)
      ((scenario_controller 2000000 7 0)\<lparr>config_dirty := True\<rparr>, scenario_manager 1700000)
     = ((scenario_controller 2000000 7 0)\<lparr>config_dirty := False, last_config_save := 100\<rparr>,
        Some (JObj [(''max_br'', JInt 6000),
                    (''rist'', JObj [(''profile'', JStr ''high_1080p30_opus''),
                                     (''video_bitrate'', JInt 1700000),
                                     (''links'', JArr [link_json (scenario_link ''192.168.1.100'' True),
                                                       link_json (scenario_link ''192.168.2.100'' True)])]),
                    (''srt_latency'', JInt 2000)]))
   \<and> jget (JObj [(''max_br'', JInt 6000),
                 (''rist'', JObj [(''profile'', JStr ''high_1080p30_opus''),
                                  (''video_bitrate'', JInt 1700000),
                                  (''links'', JArr [link_json (scenario_link ''192.168.1.100'' True),
                                                    link_json (scenario_link ''192.168.2.100'' True)])]),
                 (''srt_latency'', JInt 2000)]) ''srt_latency''
       = jget scenario_document ''srt_latency''
   \<and> jget scenario_document ''srt_latency'' = Some (JInt 2000)
   \<and> jget scenario_document ''rist''
       = Some (JObj [(''profile'', JStr ''high_1080p30_opus''), (''video_bitrate'', JInt 1)])"
proof -
  let ?c = "(scenario_controller 2000000 7 0)\<lparr>config_dirty := True\<rparr>"
  let ?c' = "(scenario_controller 2000000 7 0)\<lparr>config_dirty := False, last_config_save := 100\<rparr>"
  let ?d = "JObj [(''max_br'', JInt 6000),
                 (''rist'', JObj [(''profile'', JStr ''high_1080p30_opus''),
                                  (''video_bitrate'', JInt 1700000),
                                  (''links'', JArr [link_json (scenario_link ''192.168.1.100'' True),
                                                    link_json (scenario_link ''192.168.2.100'' True)])]),
                 (''srt_latency'', JInt 2000)]"
  have e: "save_config 100 (Some scenario_document) (?c, scenario_manager 1700000) = (?c', Some ?d)"
    by code_simp
  have n: "''srt_latency'' \<noteq> ''rist''" by simp
  have a: "\<forall>k. k \<noteq> ''rist'' \<longrightarrow> jget ?d k = jget scenario_document k"
    using save_config_frame [OF e, THEN conjunct2, rule_format, of ?d, THEN conjunct1] by simp
  have k: "jget ?d ''srt_latency'' = jget scenario_document ''srt_latency''"
    using a [rule_format, OF n] .
  have v: "jget scenario_document ''srt_latency'' = Some (JInt 2000)" by code_simp
  have r: "jget scenario_document ''rist''
       = Some (JObj [(''profile'', JStr ''high_1080p30_opus''), (''video_bitrate'', JInt 1)])"
    by code_simp
  show ?thesis using e k v r by (intro conjI)
qed

section \<open>Properties of the link policy\<close>














end
